theory Spec2Isabelle
  imports Main "HOL-Library.Sublist"
begin

section \<open>JavaScript values\<close>

text \<open>
  The libraries handle documents that come from remote services and are cast to
  TypeScript types without a runtime check (\<^verbatim>\<open>res.data as T\<close>), so a value is
  modelled as what it is at run time: a JavaScript value. Numbers are integers here;
  strings are byte strings.
\<close>

datatype jsval =
    JUndefined
  | JNull
  | JBool bool
  | JNum int
  | JStr string
  | JArr "jsval list"
  | JObj "(string \<times> jsval) list"

datatype ConnectLibraryErrors =
    ERR_SUSPENDED
  | ERR_NO_CODE
  | ERR_INV_CODE
  | ERR_INV_SCOPES
  | ERR_UNABLE_CREATE_SESSION

text \<open>
  What a call can raise: a \<^verbatim>\<open>VatsimConnectException\<close>, with the error kind it was
  constructed with (\<open>None\<close> for \<^verbatim>\<open>new VatsimConnectException()\<close>), the
  \<^verbatim>\<open>TypeError\<close> of the language (a property read on \<^verbatim>\<open>undefined\<close> or
  \<^verbatim>\<open>null\<close>, a call of something that is not a function), and an error of the
  persistence layer.
\<close>

datatype error =
    VatsimConnectException "ConnectLibraryErrors option"
  | TypeError
  | DatabaseError

text \<open>\<^verbatim>\<open>v == null\<close>\<close>

fun is_nullish :: "jsval \<Rightarrow> bool" where
  "is_nullish JUndefined = True"
| "is_nullish JNull = True"
| "is_nullish _ = False"

text \<open>\<^verbatim>\<open>!v\<close> is \<open>\<not> truthy v\<close>\<close>

fun truthy :: "jsval \<Rightarrow> bool" where
  "truthy JUndefined = False"
| "truthy JNull = False"
| "truthy (JBool b) = b"
| "truthy (JNum n) = (n \<noteq> 0)"
| "truthy (JStr s) = (s \<noteq> [])"
| "truthy (JArr _) = True"
| "truthy (JObj _) = True"

text \<open>
  \<^verbatim>\<open>v.k\<close> for the property names used in these libraries, none of which is a
  built-in property of a string, number, boolean or array.
\<close>

fun get_prop :: "jsval \<Rightarrow> string \<Rightarrow> error + jsval" where
  "get_prop JUndefined k = Inl TypeError"
| "get_prop JNull k = Inl TypeError"
| "get_prop (JObj kvs) k = (case map_of kvs k of None \<Rightarrow> Inr JUndefined | Some v \<Rightarrow> Inr v)"
| "get_prop _ k = Inr JUndefined"

text \<open>\<^verbatim>\<open>v.k1.k2...\<close>\<close>

fun get_path :: "jsval \<Rightarrow> string list \<Rightarrow> error + jsval" where
  "get_path v [] = Inr v"
| "get_path v (k # ks) = (case get_prop v k of Inl e \<Rightarrow> Inl e | Inr v' \<Rightarrow> get_path v' ks)"

section \<open>VateudCoreLibrary\<close>

subsection \<open>Types\<close>

text \<open>
  \<^verbatim>\<open>VateudCoreLibraryTypes\<close> is not among the sources at hand; the records below have
  the fields that \<^verbatim>\<open>createSolo\<close> and \<^verbatim>\<open>removeSolo\<close> read.
\<close>

record solo_post_data =
  user_id :: int
  position :: string
  instructor_cid :: int
  expires_at :: string

record VateudCoreSoloCreateT =
  local_solo_id :: int
  post_data :: solo_post_data

record VateudCoreSoloRemoveT =
  remove_local_solo_id :: int
  remove_vateud_solo_id :: string

datatype VateudCoreTypeEnum = SOLO_CREATE | SOLO_REMOVE

datatype JobTypeEnum = VATEUD_CORE

record solo_create_payload =
  sc_local_solo_id :: int
  sc_user_id :: int
  sc_position :: string
  sc_instructor_cid :: int
  sc_expire_at :: string

record solo_remove_payload =
  sr_local_solo_id :: int
  sr_vateud_solo_id :: string

datatype job_data = Solo_create solo_create_payload | Solo_remove solo_remove_payload

record job_payload =
  payload_type :: VateudCoreTypeEnum
  payload_method :: string
  payload_data :: job_data

record DeliveryJob =
  job_type :: JobTypeEnum
  job_payload :: job_payload

record SendT =
  send_method :: string
  send_endpoint :: string
  send_data :: "solo_post_data option"

record axios_request =
  req_api_key :: string
  req_url :: string
  req_method :: string
  req_data :: "solo_post_data option"

text \<open>
  The outcome of one \<^verbatim>\<open>axios(...)\<close> call: it throws (network error, timeout,
  status outside 2xx) or resolves with a response whose \<^verbatim>\<open>data\<close> is the body.
\<close>

datatype axios_outcome = AxiosThrows | AxiosResolves jsval

record sync_config =
  API_KEY :: "string option"
  VATEUD_API_BASE :: string

record sync_env =
  config :: sync_config
  axios :: "axios_request \<Rightarrow> axios_outcome"

datatype LogLevels = LOG_ERROR

record UserSolo =
  solo_user_id :: int
  vateud_solo_id :: jsval

record sync_world =
  jobs :: "DeliveryJob list"
  user_solos :: "int \<rightharpoonup> UserSolo"
  requests :: "axios_request list"
  logger :: "(LogLevels \<times> string) list"

subsection \<open>Collaborators\<close>

text \<open>
  The job library and the persistence layer are taken to do their work: neither raises.
\<close>

text \<open>
  Modelled from the spec: \<^verbatim>\<open>JobLibrary.scheduleJob\<close> is not among the sources.
  The spec: it "persists a DeliveryJob describing the exact same kind+payload, to be
  re-attempted later by the scheduler tick".
\<close>

definition scheduleJob :: "JobTypeEnum \<Rightarrow> job_payload \<Rightarrow> sync_world \<Rightarrow> sync_world" where
  "scheduleJob t p w = w\<lparr>jobs := jobs w @ [\<lparr>job_type = t, job_payload = p\<rparr>]\<rparr>"

text \<open>
  \<^verbatim>\<open>UserSolo.update({vateud_solo_id: v}, {where: {id: i}})\<close>: the persistence layer
  sets the column on the row with primary key \<open>i\<close>, if there is one, and leaves a
  column whose new value is \<^verbatim>\<open>undefined\<close> out of the statement.
\<close>

definition UserSolo_update :: "jsval \<Rightarrow> int \<Rightarrow> sync_world \<Rightarrow> sync_world" where
  "UserSolo_update v i w =
     (case user_solos w i of
        None \<Rightarrow> w
      | Some row \<Rightarrow>
          if v = JUndefined then w
          else w\<lparr>user_solos := (user_solos w)(i \<mapsto> row\<lparr>vateud_solo_id := v\<rparr>)\<rparr>)"

subsection \<open>The library\<close>

text \<open>The request object handed to \<^verbatim>\<open>axios\<close> by \<^verbatim>\<open>_send\<close>.\<close>

definition axios_config :: "sync_env \<Rightarrow> string \<Rightarrow> SendT \<Rightarrow> axios_request" where
  "axios_config env key props =
     \<lparr>req_api_key = key,
      req_url = VATEUD_API_BASE (config env) @ ''/'' @ send_endpoint props,
      req_method = send_method props,
      req_data = send_data props\<rparr>"

text \<open>
  \<^verbatim>\<open>_send\<close>: \<^verbatim>\<open>undefined\<close> without a request when the API key is missing,
  \<^verbatim>\<open>undefined\<close> when the request throws, the response body otherwise. Every request
  made is recorded in \<open>requests\<close>.
\<close>

definition send :: "sync_env \<Rightarrow> SendT \<Rightarrow> sync_world \<Rightarrow> jsval \<times> sync_world" where
  "send env props w =
     (case API_KEY (config env) of
        None \<Rightarrow>
          (JUndefined,
           w\<lparr>logger := logger w @
              [(LOG_ERROR, ''VATEUD Core API Key missing, but attempted to update: ''
                  @ send_endpoint props @ ''. Aborting.'')]\<rparr>)
      | Some key \<Rightarrow>
          (let w' = w\<lparr>requests := requests w @ [axios_config env key props]\<rparr>
           in case axios env (axios_config env key props) of
                AxiosThrows \<Rightarrow> (JUndefined, w')
              | AxiosResolves d \<Rightarrow> (d, w')))"

definition createSolo ::
  "sync_env \<Rightarrow> VateudCoreSoloCreateT \<Rightarrow> sync_world \<Rightarrow> (error + jsval) \<times> sync_world" where
  "createSolo env soloInfo w =
     (case send env \<lparr>send_method = ''post'', send_endpoint = ''/solo'',
                     send_data = Some (post_data soloInfo)\<rparr> w of
        (res, w1) \<Rightarrow>
          if \<not> truthy res then
            (Inr JUndefined,
             scheduleJob VATEUD_CORE
               \<lparr>payload_type = SOLO_CREATE,
                payload_method = ''post'',
                payload_data = Solo_create
                  \<lparr>sc_local_solo_id = local_solo_id soloInfo,
                   sc_user_id = user_id (post_data soloInfo),
                   sc_position = position (post_data soloInfo),
                   sc_instructor_cid = instructor_cid (post_data soloInfo),
                   sc_expire_at = expires_at (post_data soloInfo)\<rparr>\<rparr> w1)
          else
            (case get_path res [''data'', ''id''] of
               Inl e \<Rightarrow> (Inl e, w1)
             | Inr rid \<Rightarrow> (Inr res, UserSolo_update rid (local_solo_id soloInfo) w1)))"

definition removeSolo ::
  "sync_env \<Rightarrow> VateudCoreSoloRemoveT \<Rightarrow> sync_world \<Rightarrow> (error + jsval) \<times> sync_world" where
  "removeSolo env soloInfo w =
     (case send env \<lparr>send_method = ''delete'',
                     send_endpoint = ''/solo/'' @ remove_vateud_solo_id soloInfo,
                     send_data = None\<rparr> w of
        (res, w1) \<Rightarrow>
          if \<not> truthy res then
            (Inr JUndefined,
             scheduleJob VATEUD_CORE
               \<lparr>payload_type = SOLO_REMOVE,
                payload_method = ''delete'',
                payload_data = Solo_remove
                  \<lparr>sr_local_solo_id = remove_local_solo_id soloInfo,
                   sr_vateud_solo_id = remove_vateud_solo_id soloInfo\<rparr>\<rparr> w1)
          else (Inr JUndefined, w1))"

section \<open>VatsimConnectLibrary\<close>

subsection \<open>Strings\<close>

text \<open>
  \<^verbatim>\<open>String.prototype.toLowerCase\<close>. Strings are the UTF-8 bytes of the JavaScript
  string. \<open>lower_char\<close> lowers an ASCII letter; \<open>lower_string\<close> lowers the ASCII
  letters of a string and the Kelvin sign (U+212A, the bytes E2 84 AA), whose lower case
  is the letter k. No other character outside ASCII has a lower case with a letter of
  the two words that this library compares a lowered string with (\<open>revoked\<close> and
  \<open>true\<close>); such characters are left as they are.
\<close>

definition lower_char :: "char \<Rightarrow> char" where
  "lower_char c =
     (let n = (of_char c :: nat) in if 65 \<le> n \<and> n \<le> 90 then char_of (n + 32) else c)"

fun lower_string :: "string \<Rightarrow> string" where
  "lower_string (a # b # c # cs) =
     (if a = CHR 0xE2 \<and> b = CHR 0x84 \<and> c = CHR 0xAA then CHR ''k'' # lower_string cs
      else lower_char a # lower_string (b # c # cs))"
| "lower_string [a, b] = [lower_char a, lower_char b]"
| "lower_string [a] = [lower_char a]"
| "lower_string [] = []"

text \<open>
  \<^verbatim>\<open>v.toLowerCase()\<close>: a \<^verbatim>\<open>TypeError\<close> unless \<open>v\<close> is a string (on
  \<^verbatim>\<open>undefined\<close> and \<^verbatim>\<open>null\<close> the property read fails, on any other value
  \<^verbatim>\<open>toLowerCase\<close> is not a function).
\<close>

fun toLowerCase :: "jsval \<Rightarrow> error + string" where
  "toLowerCase (JStr s) = Inr (lower_string s)"
| "toLowerCase _ = Inl TypeError"

text \<open>\<^verbatim>\<open>s.includes(t)\<close>\<close>

definition str_includes :: "string \<Rightarrow> string \<Rightarrow> bool" where
  "str_includes s t = sublist t s"

text \<open>\<^verbatim>\<open>s.split(c)\<close> for a separator of one character.\<close>

fun split :: "char \<Rightarrow> string \<Rightarrow> string list" where
  "split c [] = [[]]"
| "split c (x # xs) =
     (if x = c then [] # split c xs
      else (case split c xs of [] \<Rightarrow> [[x]] | w # ws \<Rightarrow> (x # w) # ws))"

text \<open>
  \<^verbatim>\<open>s.indexOf(t)\<close> on a string: the first position at which \<open>t\<close> occurs in
  \<open>s\<close>, \<open>-1\<close> if there is none.
\<close>

fun str_indexOf_from :: "nat \<Rightarrow> string \<Rightarrow> string \<Rightarrow> int" where
  "str_indexOf_from i [] t = (if t = [] then int i else - 1)"
| "str_indexOf_from i (x # xs) t =
     (if prefix t (x # xs) then int i else str_indexOf_from (Suc i) xs t)"

text \<open>
  \<^verbatim>\<open>a.indexOf(t)\<close> on an array, for a string \<open>t\<close>: the first position whose
  element is strictly equal to \<open>t\<close>.
\<close>

fun arr_indexOf_from :: "nat \<Rightarrow> jsval list \<Rightarrow> string \<Rightarrow> int" where
  "arr_indexOf_from i [] t = - 1"
| "arr_indexOf_from i (x # xs) t =
     (if x = JStr t then int i else arr_indexOf_from (Suc i) xs t)"

text \<open>
  \<^verbatim>\<open>v.indexOf(t)\<close>: strings and arrays have the method; on every other value the
  call is a \<^verbatim>\<open>TypeError\<close>.
\<close>

fun indexOf :: "jsval \<Rightarrow> string \<Rightarrow> error + int" where
  "indexOf (JStr s) t = Inr (str_indexOf_from 0 s t)"
| "indexOf (JArr xs) t = Inr (arr_indexOf_from 0 xs t)"
| "indexOf _ t = Inl TypeError"

subsection \<open>Types, environment and state\<close>

record ConnectOptions =
  client_id :: string
  client_secret :: string
  redirect_uri :: string
  base_uri :: "string option"
  client_scopes :: string

text \<open>
  Of the request, the headers: a header of this name is absent or has one string as its
  value. The response is the channel that \<open>sent\<close> records.
\<close>

record Request =
  headers :: "(string \<times> string) list"

datatype Response = Response

text \<open>
  The object of one login. The constructor throws when the options are missing, so an
  object has them.
\<close>

record VatsimConnectLibrary =
  m_connectOptions :: ConnectOptions
  m_remember :: bool
  m_accessToken :: jsval
  m_refreshToken :: jsval
  m_suppliedScopes :: jsval
  m_userData :: jsval
  m_response :: "Response option"
  m_request :: "Request option"

record token_request =
  tr_code :: jsval
  tr_grant_type :: string
  tr_client_id :: string
  tr_client_secret :: string
  tr_redirect_uri :: string

text \<open>
  The outcome of a request of the axios instance: it rejects with an error object
  (whose \<^verbatim>\<open>response\<close> is absent when no response arrived: network error, the
  five-second timeout) or resolves with a response whose \<^verbatim>\<open>data\<close> is given.
\<close>

datatype axios_result = Rejects jsval | Resolves jsval

datatype ValidationOptions = NON_NULL | NUMBER

text \<open>
  The calls that leave the library, in the order of the trace: the two requests to the
  identity provider, the suspension lookup and the calls of the persistence layer.
\<close>

datatype call =
    OauthToken
  | ApiUser
  | CheckIsUserBanned
  | Transaction
  | UserUpsert
  | UserDataUpsert
  | Commit
  | Rollback
  | UserSettingsFindOrCreate
  | UserFindOne
  | UserSessionDestroy
  | CreateSessionToken

text \<open>
  The environment of one login: what the identity provider answers, what the helpers
  that are not among the sources return (\<^verbatim>\<open>checkIsUserBanned\<close>,
  \<^verbatim>\<open>ValidationHelper.validate\<close>, whose result is the \<^verbatim>\<open>invalid\<close> flag), which
  calls of the persistence layer raise, and the token and time of a new session
  (\<open>None\<close>: no session can be created).
\<close>

record connect_env =
  oauth_token :: "token_request \<Rightarrow> axios_result"
  api_user :: "jsval \<Rightarrow> axios_result"
  checkIsUserBanned :: "jsval \<Rightarrow> bool"
  validate :: "(string \<times> jsval \<times> ValidationOptions list) list \<Rightarrow> bool"
  raises :: "call \<Rightarrow> bool"
  new_session_token :: "string option"
  now :: nat

record User =
  first_name :: jsval
  last_name :: jsval
  email :: jsval
  access_token :: jsval
  refresh_token :: jsval

record UserData =
  rating_atc :: jsval
  rating_pilot :: jsval
  country_code :: jsval
  country_name :: jsval
  region_name :: jsval
  region_code :: jsval
  division_name :: jsval
  division_code :: jsval
  subdivision_name :: jsval
  subdivision_code :: jsval

record UserSettings =
  language :: string
  additional_emails :: "string list"
  email_notifications_enabled :: bool

record UserSession =
  session_user_id :: jsval
  browser_uuid :: string
  session_token :: string
  remember :: bool
  created_at :: nat

datatype sent = SendStatus nat | Send "(User \<times> UserData option \<times> UserSettings option) option"

text \<open>
  The tables are keyed by the user identifier. \<open>calls\<close> is the trace of the calls
  made so far, \<open>console\<close> what was written by \<^verbatim>\<open>console.log\<close>, \<open>sent\<close> what
  was written to the HTTP response.
\<close>

record connect_world =
  users :: "jsval \<rightharpoonup> User"
  user_data :: "jsval \<rightharpoonup> UserData"
  user_settings :: "jsval \<rightharpoonup> UserSettings"
  user_sessions :: "UserSession list"
  calls :: "call list"
  console :: "jsval list"
  sent :: "sent list"

text \<open>The writes of an open transaction, applied to the tables by its commit.\<close>

record transaction =
  t_users :: "jsval \<rightharpoonup> User"
  t_user_data :: "jsval \<rightharpoonup> UserData"

subsection \<open>Sequencing\<close>

text \<open>
  A method that can throw maps the state to a result and the state it leaves;
  \<open>and_then\<close> is the sequencing of two \<^verbatim>\<open>await\<close>s: the second runs only if the
  first returned.
\<close>

definition and_then ::
  "(connect_world \<Rightarrow> (error + 'a) \<times> connect_world) \<Rightarrow>
   ('a \<Rightarrow> connect_world \<Rightarrow> (error + 'b) \<times> connect_world) \<Rightarrow>
   connect_world \<Rightarrow> (error + 'b) \<times> connect_world" where
  "and_then m f w = (case m w of (Inl e, w') \<Rightarrow> (Inl e, w') | (Inr x, w') \<Rightarrow> f x w')"

text \<open>An expression that can throw and has no effect.\<close>

definition expr :: "error + 'a \<Rightarrow> connect_world \<Rightarrow> (error + 'a) \<times> connect_world" where
  "expr r w = (r, w)"

text \<open>A call of the persistence layer: recorded in the trace, it raises or returns.\<close>

definition db_call :: "connect_env \<Rightarrow> call \<Rightarrow> connect_world \<Rightarrow> (error + unit) \<times> connect_world" where
  "db_call env c w =
     (if raises env c then (Inl DatabaseError, w\<lparr>calls := calls w @ [c]\<rparr>)
      else (Inr (), w\<lparr>calls := calls w @ [c]\<rparr>))"

text \<open>Sequencing of expressions that can throw.\<close>

definition seq :: "error + 'a \<Rightarrow> ('a \<Rightarrow> error + 'b) \<Rightarrow> error + 'b" where
  "seq r f = (case r of Inl e \<Rightarrow> Inl e | Inr x \<Rightarrow> f x)"

subsection \<open>Collaborators\<close>

text \<open>\<^verbatim>\<open>sequelize.transaction()\<close>\<close>

definition sequelize_transaction ::
  "connect_env \<Rightarrow> connect_world \<Rightarrow> (error + transaction) \<times> connect_world" where
  "sequelize_transaction env =
     and_then (db_call env Transaction)
       (\<lambda>_. expr (Inr \<lparr>t_users = Map.empty, t_user_data = Map.empty\<rparr>))"

text \<open>\<^verbatim>\<open>User.upsert(values, {transaction: t})\<close>\<close>

definition User_upsert ::
  "connect_env \<Rightarrow> jsval \<times> User \<Rightarrow> transaction \<Rightarrow> connect_world \<Rightarrow>
   (error + transaction) \<times> connect_world" where
  "User_upsert env values t =
     and_then (db_call env UserUpsert)
       (\<lambda>_. expr (Inr (t\<lparr>t_users := (t_users t)(fst values \<mapsto> snd values)\<rparr>)))"

text \<open>\<^verbatim>\<open>UserData.upsert(values, {transaction: t})\<close>\<close>

definition UserData_upsert ::
  "connect_env \<Rightarrow> jsval \<times> UserData \<Rightarrow> transaction \<Rightarrow> connect_world \<Rightarrow>
   (error + transaction) \<times> connect_world" where
  "UserData_upsert env values t =
     and_then (db_call env UserDataUpsert)
       (\<lambda>_. expr (Inr (t\<lparr>t_user_data := (t_user_data t)(fst values \<mapsto> snd values)\<rparr>)))"

text \<open>\<^verbatim>\<open>t.commit()\<close>: the writes of the transaction reach the tables together.\<close>

definition commit :: "connect_env \<Rightarrow> transaction \<Rightarrow> connect_world \<Rightarrow> (error + unit) \<times> connect_world" where
  "commit env t =
     and_then (db_call env Commit)
       (\<lambda>_ w. (Inr (), w\<lparr>users := users w ++ t_users t,
                          user_data := user_data w ++ t_user_data t\<rparr>))"

text \<open>\<^verbatim>\<open>t.rollback()\<close>: the writes of the transaction are dropped.\<close>

definition rollback :: "connect_env \<Rightarrow> transaction \<Rightarrow> connect_world \<Rightarrow> (error + unit) \<times> connect_world" where
  "rollback env t = db_call env Rollback"

text \<open>\<^verbatim>\<open>UserSettings.findOrCreate({where: {user_id}, defaults})\<close>\<close>

definition UserSettings_findOrCreate ::
  "connect_env \<Rightarrow> jsval \<Rightarrow> connect_world \<Rightarrow> (error + unit) \<times> connect_world" where
  "UserSettings_findOrCreate env cid =
     and_then (db_call env UserSettingsFindOrCreate)
       (\<lambda>_ w. (Inr (),
          case user_settings w cid of
            Some _ \<Rightarrow> w
          | None \<Rightarrow> w\<lparr>user_settings := (user_settings w)(cid \<mapsto>
                        \<lparr>language = ''de'', additional_emails = [],
                         email_notifications_enabled = True\<rparr>)\<rparr>))"

text \<open>
  \<^verbatim>\<open>User.scope("sensitive").findOne({where: {id}, include: [...]})\<close>: the user with
  the rows associated to it, or \<^verbatim>\<open>null\<close>. Roles and permissions are not part of
  this model.
\<close>

definition User_findOne ::
  "connect_env \<Rightarrow> jsval \<Rightarrow> connect_world \<Rightarrow>
   (error + (User \<times> UserData option \<times> UserSettings option) option) \<times> connect_world" where
  "User_findOne env cid =
     and_then (db_call env UserFindOne)
       (\<lambda>_ w. (Inr (case users w cid of
                      None \<Rightarrow> None
                    | Some u \<Rightarrow> Some (u, user_data w cid, user_settings w cid)), w))"

text \<open>\<^verbatim>\<open>UserSession.destroy({where: {user_id, browser_uuid}})\<close>\<close>

definition UserSession_destroy ::
  "connect_env \<Rightarrow> jsval \<Rightarrow> string \<Rightarrow> connect_world \<Rightarrow> (error + unit) \<times> connect_world" where
  "UserSession_destroy env cid b =
     and_then (db_call env UserSessionDestroy)
       (\<lambda>_ w. (Inr (), w\<lparr>user_sessions :=
          filter (\<lambda>s. \<not> (session_user_id s = cid \<and> browser_uuid s = b)) (user_sessions w)\<rparr>))"

text \<open>
  Modelled from the spec: \<^verbatim>\<open>createSessionToken\<close> of the session library is not
  among the sources. The spec: a session is "(user identifier, browser identifier,
  session token, remember-flag, creation time)"; the step "creates a new session row,
  returning a session token to the caller". When no session can be created, no row is
  written and the result is \<^verbatim>\<open>undefined\<close>.
\<close>

definition createSessionToken ::
  "connect_env \<Rightarrow> Request \<Rightarrow> Response \<Rightarrow> jsval \<Rightarrow> bool \<Rightarrow> connect_world \<Rightarrow>
   (error + jsval) \<times> connect_world" where
  "createSessionToken env request response cid rem w =
     (let w1 = w\<lparr>calls := calls w @ [CreateSessionToken]\<rparr>
      in case map_of (headers request) ''unique-browser-token'' of
           None \<Rightarrow> (Inr JUndefined, w1)
         | Some b \<Rightarrow>
             (case new_session_token env of
                None \<Rightarrow> (Inr JUndefined, w1)
              | Some tok \<Rightarrow>
                  (Inr (JStr tok),
                   w1\<lparr>user_sessions := user_sessions w1 @
                        [\<lparr>session_user_id = cid, browser_uuid = b, session_token = tok,
                          remember = rem, created_at = now env\<rparr>]\<rparr>)))"

subsection \<open>The library\<close>

text \<open>The constructor.\<close>

definition new_VatsimConnectLibrary ::
  "ConnectOptions option \<Rightarrow> bool option \<Rightarrow> error + VatsimConnectLibrary" where
  "new_VatsimConnectLibrary connectOptions rem =
     (case connectOptions of
        None \<Rightarrow> Inl (VatsimConnectException None)
      | Some opts \<Rightarrow>
          Inr \<lparr>m_connectOptions = opts,
               m_remember = (case rem of None \<Rightarrow> False | Some b \<Rightarrow> b),
               m_accessToken = JUndefined,
               m_refreshToken = JUndefined,
               m_suppliedScopes = JUndefined,
               m_userData = JUndefined,
               m_response = None,
               m_request = None\<rparr>)"

text \<open>\<^verbatim>\<open>e.response.data.hint.toLowerCase().includes("revoked")\<close>\<close>

definition hint_includes_revoked :: "jsval \<Rightarrow> error + bool" where
  "hint_includes_revoked e =
     seq (get_path e [''response'', ''data'', ''hint'']) (\<lambda>hint.
     seq (toLowerCase hint) (\<lambda>s.
     Inr (str_includes s ''revoked'')))"

text \<open>
  \<^verbatim>\<open>_queryAccessTokens\<close>. The first part is the \<^verbatim>\<open>try\<close> with its
  \<^verbatim>\<open>catch\<close>, whose value is \<^verbatim>\<open>auth_response.data\<close>: \<^verbatim>\<open>undefined\<close> when the
  \<^verbatim>\<open>catch\<close> block returns, since \<^verbatim>\<open>auth_response\<close> is still \<^verbatim>\<open>{}\<close>.
\<close>

definition queryAccessTokens ::
  "connect_env \<Rightarrow> VatsimConnectLibrary \<Rightarrow> jsval \<Rightarrow> connect_world \<Rightarrow>
   (error + VatsimConnectLibrary) \<times> connect_world" where
  "queryAccessTokens env this vatsim_code =
     and_then
       (\<lambda>w. let w1 = w\<lparr>calls := calls w @ [OauthToken]\<rparr>
            in case oauth_token env
                      \<lparr>tr_code = vatsim_code,
                       tr_grant_type = ''authorization_code'',
                       tr_client_id = client_id (m_connectOptions this),
                       tr_client_secret = client_secret (m_connectOptions this),
                       tr_redirect_uri = redirect_uri (m_connectOptions this)\<rparr> of
                 Resolves d \<Rightarrow> (Inr d, w1)
               | Rejects e \<Rightarrow>
                   and_then (expr (hint_includes_revoked e))
                     (\<lambda>revoked.
                        if revoked then expr (Inl (VatsimConnectException (Some ERR_INV_CODE)))
                        else expr (Inr JUndefined))
                     (w1\<lparr>console := console w1 @ [e]\<rparr>))
       (\<lambda>auth_response_data.
          if is_nullish auth_response_data
          then expr (Inl (VatsimConnectException (Some ERR_INV_SCOPES)))
          else expr
            (seq (get_prop auth_response_data ''access_token'') (\<lambda>a.
             seq (get_prop auth_response_data ''refresh_token'') (\<lambda>r.
             seq (get_prop auth_response_data ''scopes'') (\<lambda>sc.
             Inr (this\<lparr>m_accessToken := a, m_refreshToken := r, m_suppliedScopes := sc\<rparr>))))))"

text \<open>\<^verbatim>\<open>_queryUserData\<close>: it returns the profile document and stores it.\<close>

definition queryUserData ::
  "connect_env \<Rightarrow> VatsimConnectLibrary \<Rightarrow> connect_world \<Rightarrow>
   (error + jsval \<times> VatsimConnectLibrary) \<times> connect_world" where
  "queryUserData env this w =
     (if is_nullish (m_accessToken this) then (Inr (JNull, this), w)
      else
        (let user_response_data =
               (case api_user env (m_accessToken this) of
                  Rejects e \<Rightarrow> JUndefined
                | Resolves d \<Rightarrow> d)
         in (Inr (user_response_data, this\<lparr>m_userData := user_response_data\<rparr>),
             w\<lparr>calls := calls w @ [ApiUser]\<rparr>)))"

text \<open>The loop of \<^verbatim>\<open>_validateSuppliedScopes\<close> over the required scopes.\<close>

fun required_scopes_loop :: "jsval \<Rightarrow> string list \<Rightarrow> error + unit" where
  "required_scopes_loop supplied [] = Inr ()"
| "required_scopes_loop supplied (r # rs) =
     seq (indexOf supplied r) (\<lambda>i.
       if i = - 1 then Inl (VatsimConnectException (Some ERR_INV_SCOPES))
       else required_scopes_loop supplied rs)"

definition validateSuppliedScopes :: "VatsimConnectLibrary \<Rightarrow> error + unit" where
  "validateSuppliedScopes this =
     (if is_nullish (m_suppliedScopes this) then Inl (VatsimConnectException None)
      else required_scopes_loop (m_suppliedScopes this)
             (split CHR '' '' (client_scopes (m_connectOptions this))))"

definition checkIsUserSuspended ::
  "connect_env \<Rightarrow> VatsimConnectLibrary \<Rightarrow> connect_world \<Rightarrow> (error + unit) \<times> connect_world" where
  "checkIsUserSuspended env this =
     (if is_nullish (m_userData this) then expr (Inr ())
      else
        and_then (expr (get_path (m_userData this) [''data'', ''cid''])) (\<lambda>cid.
        and_then (db_call env CheckIsUserBanned) (\<lambda>_.
        if checkIsUserBanned env cid
        then expr (Inl (VatsimConnectException (Some ERR_SUSPENDED)))
        else
          and_then (expr (get_path (m_userData this) [''data'', ''vatsim'', ''rating'', ''id'']))
            (\<lambda>rating.
               if rating = JNum 0
               then expr (Inl (VatsimConnectException (Some ERR_SUSPENDED)))
               else expr (Inr ())))))"

text \<open>\<^verbatim>\<open>this.m_userData?.data.k\<close>\<close>

definition userData_field :: "VatsimConnectLibrary \<Rightarrow> string \<Rightarrow> error + jsval" where
  "userData_field this k =
     (if is_nullish (m_userData this) then Inr JUndefined
      else get_path (m_userData this) [''data'', k])"

text \<open>\<^verbatim>\<open>_validateUserData().invalid\<close>\<close>

definition validateUserData :: "connect_env \<Rightarrow> VatsimConnectLibrary \<Rightarrow> error + bool" where
  "validateUserData env this =
     seq (userData_field this ''cid'') (\<lambda>cid.
     seq (userData_field this ''personal'') (\<lambda>personal.
     seq (userData_field this ''vatsim'') (\<lambda>vatsim.
     Inr (validate env
            [(''cid'', cid, [NON_NULL, NUMBER]),
             (''personal'', personal, [NON_NULL]),
             (''vatsim'', vatsim, [NON_NULL])]))))"

text \<open>\<^verbatim>\<open>this.m_userData.data.oauth.token_valid?.toLowerCase() === "true"\<close>\<close>

definition tokenValid :: "VatsimConnectLibrary \<Rightarrow> error + bool" where
  "tokenValid this =
     seq (get_path (m_userData this) [''data'', ''oauth'', ''token_valid'']) (\<lambda>v.
       if is_nullish v then Inr False
       else seq (toLowerCase v) (\<lambda>s. Inr (s = ''true'')))"

text \<open>The values of the \<^verbatim>\<open>User.upsert\<close>: the key and the other columns.\<close>

definition user_values :: "VatsimConnectLibrary \<Rightarrow> bool \<Rightarrow> error + jsval \<times> User" where
  "user_values this valid =
     seq (get_path (m_userData this) [''data'', ''cid'']) (\<lambda>cid.
     seq (get_path (m_userData this) [''data'', ''personal'', ''name_first'']) (\<lambda>name_first.
     seq (get_path (m_userData this) [''data'', ''personal'', ''name_last'']) (\<lambda>name_last.
     seq (get_path (m_userData this) [''data'', ''personal'', ''email'']) (\<lambda>mail.
     Inr (cid,
          \<lparr>first_name = name_first,
           last_name = name_last,
           email = mail,
           access_token = (if valid then m_accessToken this else JNull),
           refresh_token = (if valid then m_refreshToken this else JNull)\<rparr>)))))"

text \<open>The values of the \<^verbatim>\<open>UserData.upsert\<close>.\<close>

definition user_data_values :: "VatsimConnectLibrary \<Rightarrow> error + jsval \<times> UserData" where
  "user_data_values this =
     seq (get_path (m_userData this) [''data'', ''cid'']) (\<lambda>cid.
     seq (get_path (m_userData this) [''data'', ''vatsim'', ''rating'', ''id'']) (\<lambda>v1.
     seq (get_path (m_userData this) [''data'', ''vatsim'', ''pilotrating'', ''id'']) (\<lambda>v2.
     seq (get_path (m_userData this) [''data'', ''personal'', ''country'', ''id'']) (\<lambda>v3.
     seq (get_path (m_userData this) [''data'', ''personal'', ''country'', ''name'']) (\<lambda>v4.
     seq (get_path (m_userData this) [''data'', ''vatsim'', ''region'', ''name'']) (\<lambda>v5.
     seq (get_path (m_userData this) [''data'', ''vatsim'', ''region'', ''id'']) (\<lambda>v6.
     seq (get_path (m_userData this) [''data'', ''vatsim'', ''division'', ''name'']) (\<lambda>v7.
     seq (get_path (m_userData this) [''data'', ''vatsim'', ''division'', ''id'']) (\<lambda>v8.
     seq (get_path (m_userData this) [''data'', ''vatsim'', ''subdivision'', ''name'']) (\<lambda>v9.
     seq (get_path (m_userData this) [''data'', ''vatsim'', ''subdivision'', ''id'']) (\<lambda>v10.
     Inr (cid,
          \<lparr>rating_atc = v1, rating_pilot = v2, country_code = v3, country_name = v4,
           region_name = v5, region_code = v6, division_name = v7, division_code = v8,
           subdivision_name = v9, subdivision_code = v10\<rparr>))))))))))))"

text \<open>The \<^verbatim>\<open>try\<close> block of \<^verbatim>\<open>_updateDatabase\<close>.\<close>

definition updateDatabase_try ::
  "connect_env \<Rightarrow> VatsimConnectLibrary \<Rightarrow> bool \<Rightarrow> transaction \<Rightarrow> connect_world \<Rightarrow>
   (error + unit) \<times> connect_world" where
  "updateDatabase_try env this valid t =
     and_then (expr (user_values this valid)) (\<lambda>uv.
     and_then (User_upsert env uv t) (\<lambda>t1.
     and_then (expr (user_data_values this)) (\<lambda>dv.
     and_then (UserData_upsert env dv t1) (\<lambda>t2.
     commit env t2))))"

text \<open>
  \<^verbatim>\<open>_updateDatabase\<close>: whatever the \<^verbatim>\<open>try\<close> block throws is caught, and the
  \<^verbatim>\<open>catch\<close> block rolls the transaction back.
\<close>

definition updateDatabase ::
  "connect_env \<Rightarrow> VatsimConnectLibrary \<Rightarrow> connect_world \<Rightarrow> (error + unit) \<times> connect_world" where
  "updateDatabase env this =
     (if is_nullish (m_userData this) then expr (Inl (VatsimConnectException None))
      else
        and_then (expr (validateUserData env this)) (\<lambda>invalid.
        if invalid then expr (Inl (VatsimConnectException None))
        else
          and_then (expr (tokenValid this)) (\<lambda>valid.
          and_then (sequelize_transaction env) (\<lambda>t w.
            case updateDatabase_try env this valid t w of
              (Inr u, w') \<Rightarrow> (Inr (), w')
            | (Inl e, w') \<Rightarrow> rollback env t w'))))"

definition handleSessionChange ::
  "connect_env \<Rightarrow> VatsimConnectLibrary \<Rightarrow> connect_world \<Rightarrow> (error + jsval) \<times> connect_world" where
  "handleSessionChange env this =
     (case m_response this of
        None \<Rightarrow> expr (Inl (VatsimConnectException None))
      | Some response \<Rightarrow>
          (case m_request this of
             None \<Rightarrow> expr (Inl (VatsimConnectException None))
           | Some request \<Rightarrow>
               (case map_of (headers request) ''unique-browser-token'' of
                  None \<Rightarrow> expr (Inl (VatsimConnectException None))
                | Some browserUUID \<Rightarrow>
                    and_then (expr (userData_field this ''cid'')) (\<lambda>cid.
                    if is_nullish cid then expr (Inl (VatsimConnectException None))
                    else
                      and_then (UserSession_destroy env cid browserUUID) (\<lambda>_.
                      createSessionToken env request response cid (m_remember this))))))"

definition login ::
  "connect_env \<Rightarrow> VatsimConnectLibrary \<Rightarrow> Request \<Rightarrow> Response \<Rightarrow> jsval \<Rightarrow> connect_world \<Rightarrow>
   (error + unit) \<times> connect_world" where
  "login env this request response code =
     (if is_nullish code then expr (Inl (VatsimConnectException (Some ERR_NO_CODE)))
      else
        and_then (queryAccessTokens env
                    (this\<lparr>m_response := Some response, m_request := Some request\<rparr>) code)
          (\<lambda>this1.
        and_then (queryUserData env this1) (\<lambda>fetched.
        if is_nullish (m_userData (snd fetched))
        then (\<lambda>w. (Inr (), w\<lparr>sent := sent w @ [SendStatus 500]\<rparr>))
        else
          and_then (expr (validateSuppliedScopes (snd fetched))) (\<lambda>_.
          and_then (checkIsUserSuspended env (snd fetched)) (\<lambda>_.
          if is_nullish (m_userData (snd fetched)) then expr (Inl (VatsimConnectException None))
          else
            and_then (updateDatabase env (snd fetched)) (\<lambda>_.
            and_then (expr (get_path (m_userData (snd fetched)) [''data'', ''cid''])) (\<lambda>cid.
            and_then (UserSettings_findOrCreate env cid) (\<lambda>_.
            and_then (expr (userData_field (snd fetched) ''cid'')) (\<lambda>cid'.
            and_then (User_findOne env cid') (\<lambda>user.
            and_then (handleSessionChange env (snd fetched)) (\<lambda>session.
            if truthy session then (\<lambda>w. (Inr (), w\<lparr>sent := sent w @ [Send user]\<rparr>))
            else expr (Inl (VatsimConnectException (Some ERR_UNABLE_CREATE_SESSION))))))))))))))"

text \<open>
  \<^verbatim>\<open>updateUserData\<close>, the refresh: the tokens on file, the fetch of the profile and
  the same reconciliation as in \<^verbatim>\<open>login\<close>, without a session. \<open>uid\<close> is
  \<^verbatim>\<open>request.body.user.id\<close>.
\<close>

definition updateUserData ::
  "connect_env \<Rightarrow> VatsimConnectLibrary \<Rightarrow> jsval \<Rightarrow> connect_world \<Rightarrow>
   (error + unit) \<times> connect_world" where
  "updateUserData env this uid =
     and_then (User_findOne env uid) (\<lambda>userWithAccessToken.
     case userWithAccessToken of
       None \<Rightarrow> (\<lambda>w. (Inr (), w\<lparr>sent := sent w @ [SendStatus 500]\<rparr>))
     | Some found \<Rightarrow>
         and_then
           (queryUserData env
              (this\<lparr>m_accessToken :=
                      (if is_nullish (access_token (fst found)) then JUndefined
                       else access_token (fst found)),
                    m_refreshToken :=
                      (if is_nullish (refresh_token (fst found)) then JUndefined
                       else refresh_token (fst found))\<rparr>))
           (\<lambda>fetched.
         if is_nullish (fst fetched)
         then (\<lambda>w. (Inr (), w\<lparr>sent := sent w @ [SendStatus 500]\<rparr>))
         else
           and_then (updateDatabase env (snd fetched)) (\<lambda>_.
           and_then (expr (userData_field (snd fetched) ''cid'')) (\<lambda>cid.
           and_then (User_findOne env cid) (\<lambda>newUser.
           case newUser of
             None \<Rightarrow> (\<lambda>w. (Inr (), w\<lparr>sent := sent w @ [SendStatus 500]\<rparr>))
           | Some u \<Rightarrow> (\<lambda>w. (Inr (), w\<lparr>sent := sent w @ [Send (Some u)]\<rparr>)))))))"

section \<open>Example environments\<close>

text \<open>
  Concrete inputs at which the properties below are evaluated. The sync target of
  \<open>unreachable_env\<close> cannot be reached; that of \<open>empty_body_env\<close> answers every
  request with a 2xx status and an empty body; that of \<open>created_env\<close> answers with
  the document \<^verbatim>\<open>{data: {id: 42}}\<close>; \<open>no_key_env\<close> has no API key.
\<close>

definition unreachable_env :: sync_env where
  "unreachable_env =
     \<lparr>config = \<lparr>API_KEY = Some ''secret'', VATEUD_API_BASE = ''https://core.example''\<rparr>,
      axios = (\<lambda>_. AxiosThrows)\<rparr>"

definition no_key_env :: sync_env where
  "no_key_env =
     \<lparr>config = \<lparr>API_KEY = None, VATEUD_API_BASE = ''https://core.example''\<rparr>,
      axios = (\<lambda>_. AxiosResolves (JObj [(''data'', JObj [(''id'', JNum 42)])]))\<rparr>"

definition empty_body_env :: sync_env where
  "empty_body_env =
     \<lparr>config = \<lparr>API_KEY = Some ''secret'', VATEUD_API_BASE = ''https://core.example''\<rparr>,
      axios = (\<lambda>_. AxiosResolves (JStr []))\<rparr>"

definition created_env :: sync_env where
  "created_env =
     \<lparr>config = \<lparr>API_KEY = Some ''secret'', VATEUD_API_BASE = ''https://core.example''\<rparr>,
      axios = (\<lambda>_. AxiosResolves (JObj [(''data'', JObj [(''id'', JNum 42)])]))\<rparr>"

definition create_solo7 :: VateudCoreSoloCreateT where
  "create_solo7 =
     \<lparr>local_solo_id = 7,
      post_data = \<lparr>user_id = 1234567, position = ''EDDF_TWR'', instructor_cid = 7654321,
                   expires_at = ''2024-06-30''\<rparr>\<rparr>"

definition remove_solo7 :: VateudCoreSoloRemoveT where
  "remove_solo7 = \<lparr>remove_local_solo_id = 7, remove_vateud_solo_id = ''r-9''\<rparr>"

definition two_solos :: sync_world where
  "two_solos =
     \<lparr>jobs = [],
      user_solos = [7 \<mapsto> \<lparr>solo_user_id = 1234567, vateud_solo_id = JNull\<rparr>,
                    8 \<mapsto> \<lparr>solo_user_id = 1111111, vateud_solo_id = JNull\<rparr>],
      requests = [],
      logger = []\<rparr>"

text \<open>
  A deployment of the login bridge, a request of the browser \<open>browser-1\<close>, and the
  documents of the spec's scenario: the code \<open>abc123\<close> is exchanged for the token
  \<open>tok1\<close> with the scopes \<open>full_name vatsim_details email\<close>.
\<close>

definition connect_options :: ConnectOptions where
  "connect_options =
     \<lparr>client_id = ''tc'', client_secret = ''s3cret'',
      redirect_uri = ''https://tc.example/login'', base_uri = None,
      client_scopes = ''full_name vatsim_details email''\<rparr>"

definition fresh_library :: VatsimConnectLibrary where
  "fresh_library =
     \<lparr>m_connectOptions = connect_options, m_remember = False,
      m_accessToken = JUndefined, m_refreshToken = JUndefined,
      m_suppliedScopes = JUndefined, m_userData = JUndefined,
      m_response = None, m_request = None\<rparr>"

definition browser_request :: Request where
  "browser_request = \<lparr>headers = [(''unique-browser-token'', ''browser-1'')]\<rparr>"

definition token_document :: jsval where
  "token_document =
     JObj [(''access_token'', JStr ''tok1''), (''refresh_token'', JStr ''ref1''),
           (''scopes'', JStr ''full_name vatsim_details email'')]"

definition profile_document :: jsval where
  "profile_document =
     JObj [(''data'', JObj
       [(''cid'', JNum 1234567),
        (''personal'', JObj
          [(''name_first'', JStr ''Ada''), (''name_last'', JStr ''Lovelace''),
           (''email'', JStr ''ada@example.org''),
           (''country'', JObj [(''id'', JStr ''DE''), (''name'', JStr ''Germany'')])]),
        (''vatsim'', JObj
          [(''rating'', JObj [(''id'', JNum 3)]),
           (''pilotrating'', JObj [(''id'', JNum 0)]),
           (''region'', JObj [(''id'', JStr ''EMEA''), (''name'', JStr ''Europe'')]),
           (''division'', JObj [(''id'', JStr ''EUD''), (''name'', JStr ''Europe (except UK)'')]),
           (''subdivision'', JObj [(''id'', JStr ''GER''), (''name'', JStr ''Germany'')])]),
        (''oauth'', JObj [(''token_valid'', JStr ''true'')])])]"

text \<open>The error of a request that was answered with a hint.\<close>

definition hint_error :: "string \<Rightarrow> jsval" where
  "hint_error h = JObj [(''response'', JObj [(''data'', JObj [(''hint'', JStr h)])])]"

text \<open>The error of a request that got no response: the timeout.\<close>

definition timeout_error :: jsval where
  "timeout_error =
     JObj [(''code'', JStr ''ECONNABORTED''), (''message'', JStr ''timeout of 5000ms exceeded'')]"

text \<open>
  The provider of \<open>provider_env\<close> exchanges the code \<open>abc123\<close> and rejects every
  other code with a hint; no call of the persistence layer raises. In
  \<open>revoked_env\<close> the code was used before; in \<open>offline_env\<close> the provider
  does not answer.
\<close>

definition provider_env :: connect_env where
  "provider_env =
     \<lparr>oauth_token = (\<lambda>rq. if tr_code rq = JStr ''abc123'' then Resolves token_document
                           else Rejects (hint_error ''Authorization code is invalid'')),
      api_user = (\<lambda>t. if t = JStr ''tok1'' then Resolves profile_document
                        else Rejects (hint_error ''Unauthenticated'')),
      checkIsUserBanned = (\<lambda>_. False),
      validate = (\<lambda>_. False),
      raises = (\<lambda>_. False),
      new_session_token = Some ''session-2'',
      now = 1000\<rparr>"

definition revoked_env :: connect_env where
  "revoked_env =
     provider_env\<lparr>oauth_token :=
       (\<lambda>_. Rejects (hint_error ''Authorization code has been revoked''))\<rparr>"

definition offline_env :: connect_env where
  "offline_env = provider_env\<lparr>oauth_token := (\<lambda>_. Rejects timeout_error)\<rparr>"

text \<open>A state in which the user has a session of \<open>browser-1\<close> and one of \<open>browser-2\<close>.\<close>

definition two_sessions :: connect_world where
  "two_sessions =
     \<lparr>users = Map.empty, user_data = Map.empty, user_settings = Map.empty,
      user_sessions =
        [\<lparr>session_user_id = JNum 1234567, browser_uuid = ''browser-1'',
          session_token = ''session-1'', remember = False, created_at = 10\<rparr>,
         \<lparr>session_user_id = JNum 1234567, browser_uuid = ''browser-2'',
          session_token = ''session-0'', remember = True, created_at = 5\<rparr>],
      calls = [], console = [], sent = []\<rparr>"

text \<open>
  A deployment that requires the scope \<open>email\<close>, after an exchange that granted
  \<open>full_name emails\<close>; and one after an exchange that granted the array
  \<^verbatim>\<open>["full_name", "email"]\<close>.
\<close>

definition granted_emails :: VatsimConnectLibrary where
  "granted_emails =
     fresh_library\<lparr>m_connectOptions := connect_options\<lparr>client_scopes := ''email''\<rparr>,
                    m_suppliedScopes := JStr ''full_name emails''\<rparr>"

definition granted_array :: VatsimConnectLibrary where
  "granted_array =
     fresh_library\<lparr>m_connectOptions := connect_options\<lparr>client_scopes := ''email''\<rparr>,
                    m_suppliedScopes := JArr [JStr ''full_name'', JStr ''email'']\<rparr>"

text \<open>
  The library after the exchange and the fetch of the scenario; an environment whose
  first upsert raises; and a profile that carries a valid-flag under \<open>vatsim\<close>
  while the one under \<open>oauth\<close> says that the tokens are not valid.
\<close>

definition fetched_library :: VatsimConnectLibrary where
  "fetched_library =
     \<lparr>m_connectOptions = connect_options, m_remember = False,
      m_accessToken = JStr ''tok1'', m_refreshToken = JStr ''ref1'',
      m_suppliedScopes = JStr ''full_name vatsim_details email'',
      m_userData = profile_document,
      m_response = Some Response, m_request = Some browser_request\<rparr>"


definition vatsim_flag_document :: jsval where
  "vatsim_flag_document =
     JObj [(''data'', JObj
       [(''cid'', JNum 1234567),
        (''personal'', JObj
          [(''name_first'', JStr ''Ada''), (''name_last'', JStr ''Lovelace''),
           (''email'', JStr ''ada@example.org''),
           (''country'', JObj [(''id'', JStr ''DE''), (''name'', JStr ''Germany'')])]),
        (''vatsim'', JObj
          [(''rating'', JObj [(''id'', JNum 3)]),
           (''pilotrating'', JObj [(''id'', JNum 0)]),
           (''region'', JObj [(''id'', JStr ''EMEA''), (''name'', JStr ''Europe'')]),
           (''division'', JObj [(''id'', JStr ''EUD''), (''name'', JStr ''Europe (except UK)'')]),
           (''subdivision'', JObj [(''id'', JStr ''GER''), (''name'', JStr ''Germany'')]),
           (''token_valid'', JStr ''true'')]),
        (''oauth'', JObj [(''token_valid'', JStr ''false'')])])]"

definition vatsim_flag_library :: VatsimConnectLibrary where
  "vatsim_flag_library = fetched_library\<lparr>m_userData := vatsim_flag_document\<rparr>"




section \<open>Notions used in the properties\<close>


text \<open>Two states with the same rows in every table.\<close>

definition same_tables :: "connect_world \<Rightarrow> connect_world \<Rightarrow> bool" where
  "same_tables w w' \<longleftrightarrow>
     users w' = users w \<and> user_data w' = user_data w \<and>
     user_settings w' = user_settings w \<and> user_sessions w' = user_sessions w"

section \<open>Properties of VateudCoreLibrary\<close>

lemma send_failure:
  assumes "API_KEY (config env) = None \<or>
           (\<exists>key. API_KEY (config env) = Some key \<and> axios env (axios_config env key props) = AxiosThrows)"
  obtains w1 where "send env props w = (JUndefined, w1)" "jobs w1 = jobs w"
    "user_solos w1 = user_solos w"
  using assms by (auto simp: send_def Let_def split: option.splits)

lemma send_success:
  assumes "API_KEY (config env) = Some key"
    and "axios env (axios_config env key props) = AxiosResolves body"
  shows "send env props w = (body, w\<lparr>requests := requests w @ [axios_config env key props]\<rparr>)"
  using assms by (simp add: send_def Let_def)

text \<open>
  C1, amended. A solo-create or solo-remove call whose inline request fails (no API key
  configured, or the request throws: network error, status outside 2xx) returns
  \<^verbatim>\<open>undefined\<close> without raising, leaves the solo records alone and schedules exactly
  one job of the matching kind: its payload carries the local solo id and, for a create,
  the four fields of the posted data, for a remove, the remote id. When the request
  succeeds with a truthy response body, no job is scheduled.
\<close>

theorem solo_sync_failure_schedules_one_job:
  fixes c :: VateudCoreSoloCreateT and r :: VateudCoreSoloRemoveT
  defines "create_props \<equiv>
             \<lparr>send_method = ''post'', send_endpoint = ''/solo'', send_data = Some (post_data c)\<rparr>"
    and "remove_props \<equiv>
             \<lparr>send_method = ''delete'', send_endpoint = ''/solo/'' @ remove_vateud_solo_id r,
              send_data = None\<rparr>"
  shows
  "(API_KEY (config env) = None \<or>
      (\<exists>key. API_KEY (config env) = Some key \<and>
             axios env (axios_config env key create_props) = AxiosThrows) \<longrightarrow>
      fst (createSolo env c w) = Inr JUndefined \<and>
      user_solos (snd (createSolo env c w)) = user_solos w \<and>
      jobs (snd (createSolo env c w)) = jobs w @
        [\<lparr>job_type = VATEUD_CORE,
          job_payload = \<lparr>payload_type = SOLO_CREATE, payload_method = ''post'',
            payload_data = Solo_create
              \<lparr>sc_local_solo_id = local_solo_id c,
               sc_user_id = user_id (post_data c),
               sc_position = position (post_data c),
               sc_instructor_cid = instructor_cid (post_data c),
               sc_expire_at = expires_at (post_data c)\<rparr>\<rparr>\<rparr>]) \<and>
   (API_KEY (config env) = None \<or>
      (\<exists>key. API_KEY (config env) = Some key \<and>
             axios env (axios_config env key remove_props) = AxiosThrows) \<longrightarrow>
      fst (removeSolo env r w) = Inr JUndefined \<and>
      user_solos (snd (removeSolo env r w)) = user_solos w \<and>
      jobs (snd (removeSolo env r w)) = jobs w @
        [\<lparr>job_type = VATEUD_CORE,
          job_payload = \<lparr>payload_type = SOLO_REMOVE, payload_method = ''delete'',
            payload_data = Solo_remove
              \<lparr>sr_local_solo_id = remove_local_solo_id r,
               sr_vateud_solo_id = remove_vateud_solo_id r\<rparr>\<rparr>\<rparr>]) \<and>
   (\<forall>key body. API_KEY (config env) = Some key \<and> truthy body \<longrightarrow>
      (axios env (axios_config env key create_props) = AxiosResolves body \<longrightarrow>
         jobs (snd (createSolo env c w)) = jobs w) \<and>
      (axios env (axios_config env key remove_props) = AxiosResolves body \<longrightarrow>
         fst (removeSolo env r w) = Inr JUndefined \<and>
         jobs (snd (removeSolo env r w)) = jobs w \<and>
         user_solos (snd (removeSolo env r w)) = user_solos w))"
proof (intro conjI impI allI)
  assume f: "API_KEY (config env) = None \<or>
      (\<exists>key. API_KEY (config env) = Some key \<and>
             axios env (axios_config env key create_props) = AxiosThrows)"
  from f obtain w1 where w1: "send env create_props w = (JUndefined, w1)"
    "jobs w1 = jobs w" "user_solos w1 = user_solos w" by (rule send_failure)
  from w1 show "fst (createSolo env c w) = Inr JUndefined"
    by (simp add: createSolo_def create_props_def)
  from w1 show "user_solos (snd (createSolo env c w)) = user_solos w"
    by (simp add: createSolo_def create_props_def scheduleJob_def)
  from w1 show "jobs (snd (createSolo env c w)) = jobs w @
        [\<lparr>job_type = VATEUD_CORE,
          job_payload = \<lparr>payload_type = SOLO_CREATE, payload_method = ''post'',
            payload_data = Solo_create
              \<lparr>sc_local_solo_id = local_solo_id c,
               sc_user_id = user_id (post_data c),
               sc_position = position (post_data c),
               sc_instructor_cid = instructor_cid (post_data c),
               sc_expire_at = expires_at (post_data c)\<rparr>\<rparr>\<rparr>]"
    by (simp add: createSolo_def create_props_def scheduleJob_def)
next
  assume f: "API_KEY (config env) = None \<or>
      (\<exists>key. API_KEY (config env) = Some key \<and>
             axios env (axios_config env key remove_props) = AxiosThrows)"
  from f obtain w1 where w1: "send env remove_props w = (JUndefined, w1)"
    "jobs w1 = jobs w" "user_solos w1 = user_solos w" by (rule send_failure)
  from w1 show "fst (removeSolo env r w) = Inr JUndefined"
    by (simp add: removeSolo_def remove_props_def)
  from w1 show "user_solos (snd (removeSolo env r w)) = user_solos w"
    by (simp add: removeSolo_def remove_props_def scheduleJob_def)
  from w1 show "jobs (snd (removeSolo env r w)) = jobs w @
        [\<lparr>job_type = VATEUD_CORE,
          job_payload = \<lparr>payload_type = SOLO_REMOVE, payload_method = ''delete'',
            payload_data = Solo_remove
              \<lparr>sr_local_solo_id = remove_local_solo_id r,
               sr_vateud_solo_id = remove_vateud_solo_id r\<rparr>\<rparr>\<rparr>]"
    by (simp add: removeSolo_def remove_props_def scheduleJob_def)
next
  fix key body
  assume k: "API_KEY (config env) = Some key \<and> truthy body"
    and a: "axios env (axios_config env key create_props) = AxiosResolves body"
  from k a show "jobs (snd (createSolo env c w)) = jobs w"
    using send_success [of env key create_props body w]
    by (simp add: createSolo_def create_props_def UserSolo_update_def
        split: sum.splits option.splits)
next
  fix key body
  assume k: "API_KEY (config env) = Some key \<and> truthy body"
    and a: "axios env (axios_config env key remove_props) = AxiosResolves body"
  from k a have s: "send env remove_props w =
      (body, w\<lparr>requests := requests w @ [axios_config env key remove_props]\<rparr>)"
    by (simp add: send_success)
  from k s show "fst (removeSolo env r w) = Inr JUndefined"
    by (simp add: removeSolo_def remove_props_def)
  from k s show "jobs (snd (removeSolo env r w)) = jobs w"
    by (simp add: removeSolo_def remove_props_def)
  from k s show "user_solos (snd (removeSolo env r w)) = user_solos w"
    by (simp add: removeSolo_def remove_props_def)
qed

text \<open>
  The theorem at the spec's scenario of solo 7 with remote id \<open>r-9\<close>: without an API
  key one job each, with an unreachable sync target one job for the remove, with the
  answer \<^verbatim>\<open>{data: {id: 42}}\<close> none.
\<close>

theorem solo_sync_failure_schedules_one_job_witness:
  "API_KEY (config no_key_env) = None \<and>
   fst (createSolo no_key_env create_solo7 two_solos) = Inr JUndefined \<and>
   jobs (snd (createSolo no_key_env create_solo7 two_solos)) =
     [\<lparr>job_type = VATEUD_CORE,
       job_payload = \<lparr>payload_type = SOLO_CREATE, payload_method = ''post'',
         payload_data = Solo_create
           \<lparr>sc_local_solo_id = 7, sc_user_id = 1234567, sc_position = ''EDDF_TWR'',
            sc_instructor_cid = 7654321, sc_expire_at = ''2024-06-30''\<rparr>\<rparr>\<rparr>] \<and>
   fst (removeSolo no_key_env remove_solo7 two_solos) = Inr JUndefined \<and>
   jobs (snd (removeSolo no_key_env remove_solo7 two_solos)) =
     [\<lparr>job_type = VATEUD_CORE,
       job_payload = \<lparr>payload_type = SOLO_REMOVE, payload_method = ''delete'',
         payload_data = Solo_remove \<lparr>sr_local_solo_id = 7, sr_vateud_solo_id = ''r-9''\<rparr>\<rparr>\<rparr>] \<and>
   API_KEY (config unreachable_env) = Some ''secret'' \<and>
   axios unreachable_env
     (axios_config unreachable_env ''secret''
        \<lparr>send_method = ''delete'', send_endpoint = ''/solo/r-9'', send_data = None\<rparr>) =
     AxiosThrows \<and>
   fst (removeSolo unreachable_env remove_solo7 two_solos) = Inr JUndefined \<and>
   jobs (snd (removeSolo unreachable_env remove_solo7 two_solos)) =
     [\<lparr>job_type = VATEUD_CORE,
       job_payload = \<lparr>payload_type = SOLO_REMOVE, payload_method = ''delete'',
         payload_data = Solo_remove \<lparr>sr_local_solo_id = 7, sr_vateud_solo_id = ''r-9''\<rparr>\<rparr>\<rparr>] \<and>
   API_KEY (config created_env) = Some ''secret'' \<and>
   truthy (JObj [(''data'', JObj [(''id'', JNum 42)])]) \<and>
   jobs (snd (createSolo created_env create_solo7 two_solos)) = [] \<and>
   jobs (snd (removeSolo created_env remove_solo7 two_solos)) = []"
  using solo_sync_failure_schedules_one_job
          [where env = no_key_env and c = create_solo7 and r = remove_solo7 and w = two_solos]
        solo_sync_failure_schedules_one_job
          [where env = unreachable_env and c = create_solo7 and r = remove_solo7
             and w = two_solos]
        solo_sync_failure_schedules_one_job
          [where env = created_env and c = create_solo7 and r = remove_solo7 and w = two_solos]
  by (simp add: no_key_env_def unreachable_env_def created_env_def create_solo7_def
      remove_solo7_def two_solos_def)

text \<open>
  C1 as stated fails where a request succeeds with a falsy body: the sync target
  answers the \<^verbatim>\<open>DELETE\<close> with a 2xx status and an empty body, \<^verbatim>\<open>_send\<close> returns
  the empty string, \<^verbatim>\<open>!res\<close> holds and a job is scheduled although the request
  succeeded.
\<close>

theorem removeSolo_empty_body_counterexample:
  "API_KEY (config empty_body_env) = Some ''secret'' \<and>
   axios empty_body_env
     (axios_config empty_body_env ''secret''
        \<lparr>send_method = ''delete'', send_endpoint = ''/solo/r-9'', send_data = None\<rparr>) =
     AxiosResolves (JStr []) \<and>
   jobs two_solos = [] \<and>
   jobs (snd (removeSolo empty_body_env remove_solo7 two_solos)) =
     [\<lparr>job_type = VATEUD_CORE,
       job_payload = \<lparr>payload_type = SOLO_REMOVE, payload_method = ''delete'',
         payload_data = Solo_remove \<lparr>sr_local_solo_id = 7, sr_vateud_solo_id = ''r-9''\<rparr>\<rparr>\<rparr>]"
  by (simp add: removeSolo_def send_def empty_body_env_def remove_solo7_def two_solos_def
      axios_config_def scheduleJob_def)




section \<open>Properties of VatsimConnectLibrary\<close>

subsection \<open>The authorization code\<close>

lemma new_VatsimConnectLibrary_fresh:
  "new_VatsimConnectLibrary (Some connect_options) None = Inr fresh_library"
  "new_VatsimConnectLibrary None rem = Inl (VatsimConnectException None)"
  by (simp_all add: new_VatsimConnectLibrary_def fresh_library_def)

text \<open>
  C4, amended. If the authorization code is absent (\<^verbatim>\<open>undefined\<close> or \<^verbatim>\<open>null\<close>),
  login fails with the missing-code error and the state is as before: no call was made
  and nothing was written.
\<close>

theorem login_absent_code:
  "is_nullish code \<Longrightarrow>
     login env this request response code w =
       (Inl (VatsimConnectException (Some ERR_NO_CODE)), w)"
  by (simp add: login_def expr_def)

text \<open>The theorem at the code \<^verbatim>\<open>undefined\<close>.\<close>

theorem login_absent_code_witness:
  "is_nullish JUndefined \<and>
   login provider_env fresh_library browser_request Response JUndefined two_sessions =
     (Inl (VatsimConnectException (Some ERR_NO_CODE)), two_sessions)"
  using login_absent_code [of JUndefined provider_env fresh_library browser_request Response
      two_sessions]
  by simp

lemma str_includes_Cons:
  "str_includes (x # xs) t = (prefix t (x # xs) \<or> str_includes xs t)"
  by (simp add: str_includes_def sublist_Cons_right)

lemma str_includes_Nil: "str_includes [] t = (t = [])"
  by (simp add: str_includes_def)

lemma lower_char_simps:
  "lower_char c =
     (if 65 \<le> (of_char c :: nat) \<and> (of_char c :: nat) \<le> 90
      then char_of ((of_char c :: nat) + 32) else c)"
  by (simp add: lower_char_def Let_def)

text \<open>
  Without the first byte of the Kelvin sign, lowering a string is lowering its
  characters; and a lowered string in which no k occurs is the string of the lowered
  characters.
\<close>

lemma lower_string_map:
  "CHR 0xE2 \<notin> set s \<Longrightarrow> lower_string s = map lower_char s"
  by (induction s rule: lower_string.induct) (simp_all, blast)

lemma lower_string_map_or_k:
  "lower_string s = map lower_char s \<or> CHR ''k'' \<in> set (lower_string s)"
  by (induction s rule: lower_string.induct) (simp_all, blast)

lemma lower_string_true: "lower_string s = ''true'' \<longleftrightarrow> map lower_char s = ''true''"
proof
  assume a: "lower_string s = ''true''"
  then have "CHR ''k'' \<notin> set (lower_string s)" by simp
  with lower_string_map_or_k [of s] a show "map lower_char s = ''true''" by simp
next
  assume a: "map lower_char s = ''true''"
  have l: "lower_char (CHR 0xE2) = CHR 0xE2"
    by (simp add: lower_char_simps)
  have "CHR 0xE2 \<notin> set s"
  proof
    assume "CHR 0xE2 \<in> set s"
    then have "lower_char (CHR 0xE2) \<in> set (map lower_char s)"
      by (simp only: set_map image_eqI)
    then show False
      unfolding a l by simp
  qed
  with a show "lower_string s = ''true''"
    by (simp add: lower_string_map)
qed

text \<open>
  C4 as stated fails at the empty string: it is not \<^verbatim>\<open>null\<close>, so the code is sent
  to the provider, which rejects it, and login fails with the invalid-scopes error after
  one network call.
\<close>

theorem login_empty_code_counterexample:
  "login provider_env fresh_library browser_request Response (JStr []) two_sessions =
     (Inl (VatsimConnectException (Some ERR_INV_SCOPES)),
      two_sessions\<lparr>calls := [OauthToken],
                    console := [hint_error ''Authorization code is invalid'']\<rparr>)"
  by (simp add: login_def queryAccessTokens_def and_then_def expr_def provider_env_def
      hint_includes_revoked_def hint_error_def seq_def two_sessions_def
      str_includes_Cons str_includes_Nil lower_char_simps)

subsection \<open>The token exchange\<close>

text \<open>
  What \<^verbatim>\<open>_queryAccessTokens\<close> does when the exchange is rejected with a response
  whose hint is a string: the invalid-code error if the hint mentions a revocation, the
  invalid-scopes error otherwise.
\<close>

lemma queryAccessTokens_rejected_with_hint:
  assumes "oauth_token env
             \<lparr>tr_code = vatsim_code, tr_grant_type = ''authorization_code'',
              tr_client_id = client_id (m_connectOptions this),
              tr_client_secret = client_secret (m_connectOptions this),
              tr_redirect_uri = redirect_uri (m_connectOptions this)\<rparr> = Rejects e"
    and "get_path e [''response'', ''data'', ''hint''] = Inr (JStr h)"
  shows "fst (queryAccessTokens env this vatsim_code w) =
           Inl (VatsimConnectException
                  (Some (if str_includes (lower_string h) ''revoked''
                         then ERR_INV_CODE else ERR_INV_SCOPES)))"
  using assms
  by (simp add: queryAccessTokens_def and_then_def expr_def hint_includes_revoked_def seq_def)

text \<open>An exchange that resolves without a payload fails with the invalid-scopes error.\<close>

lemma queryAccessTokens_no_payload:
  assumes "oauth_token env
             \<lparr>tr_code = vatsim_code, tr_grant_type = ''authorization_code'',
              tr_client_id = client_id (m_connectOptions this),
              tr_client_secret = client_secret (m_connectOptions this),
              tr_redirect_uri = redirect_uri (m_connectOptions this)\<rparr> = Resolves d"
    and "is_nullish d"
  shows "fst (queryAccessTokens env this vatsim_code w) =
           Inl (VatsimConnectException (Some ERR_INV_SCOPES))"
  using assms by (simp add: queryAccessTokens_def and_then_def expr_def)

text \<open>
  An exchange that is rejected without a response (network error, timeout) leaves the
  \<^verbatim>\<open>catch\<close> block by the \<^verbatim>\<open>TypeError\<close> of \<^verbatim>\<open>e.response.data\<close>.
\<close>

lemma queryAccessTokens_no_response:
  assumes "oauth_token env
             \<lparr>tr_code = vatsim_code, tr_grant_type = ''authorization_code'',
              tr_client_id = client_id (m_connectOptions this),
              tr_client_secret = client_secret (m_connectOptions this),
              tr_redirect_uri = redirect_uri (m_connectOptions this)\<rparr> = Rejects e"
    and "get_prop e ''response'' = Inr JUndefined"
  shows "fst (queryAccessTokens env this vatsim_code w) = Inl TypeError"
  using assms
  by (simp add: queryAccessTokens_def and_then_def expr_def hint_includes_revoked_def seq_def)

text \<open>
  C5. The token exchange of the code \<open>abc123\<close> runs into the timeout: the error has
  no \<^verbatim>\<open>response\<close>, and \<^verbatim>\<open>_queryAccessTokens\<close> throws a \<^verbatim>\<open>TypeError\<close>, neither
  the invalid-code nor the invalid-scopes error.
\<close>

theorem queryAccessTokens_timeout_TypeError:
  "queryAccessTokens offline_env fresh_library (JStr ''abc123'') two_sessions =
     (Inl TypeError, two_sessions\<lparr>calls := [OauthToken], console := [timeout_error]\<rparr>)"
  by (simp add: queryAccessTokens_def and_then_def expr_def offline_env_def provider_env_def
      hint_includes_revoked_def timeout_error_def seq_def two_sessions_def)

text \<open>At a revoked code login fails with the invalid-code error.\<close>

lemma login_revoked_code:
  "login revoked_env fresh_library browser_request Response (JStr ''abc123'') two_sessions =
     (Inl (VatsimConnectException (Some ERR_INV_CODE)),
      two_sessions\<lparr>calls := [OauthToken],
                    console := [hint_error ''Authorization code has been revoked'']\<rparr>)"
  by (simp add: login_def queryAccessTokens_def and_then_def expr_def revoked_env_def
      provider_env_def hint_includes_revoked_def hint_error_def seq_def two_sessions_def
      str_includes_Cons str_includes_Nil lower_char_simps)

subsection \<open>The granted scopes\<close>

lemma str_indexOf_from_sublist: "str_indexOf_from i s t = - 1 \<longleftrightarrow> \<not> sublist t s"
proof (induction s arbitrary: i)
  case Nil
  then show ?case by simp
next
  case (Cons x xs)
  then show ?case by (simp add: sublist_Cons_right)
qed

lemma arr_indexOf_from_member: "arr_indexOf_from i xs t = - 1 \<longleftrightarrow> JStr t \<notin> set xs"
  by (induction xs arbitrary: i) auto

lemma split_not_Nil: "split c s \<noteq> []"
  by (induction s) (auto split: list.splits)

lemma split_word_sublist: "r \<in> set (split c s) \<Longrightarrow> sublist r s"
proof (induction s arbitrary: r)
  case Nil
  then show ?case by simp
next
  case (Cons x xs)
  show ?case
  proof (cases "x = c")
    case True
    with Cons.prems have "r = [] \<or> r \<in> set (split c xs)" by simp
    then show ?thesis
      using Cons.IH by (auto simp: sublist_Cons_right)
  next
    case False
    obtain w ws where ws: "split c xs = w # ws"
      using split_not_Nil [of c xs] by (cases "split c xs") auto
    with False Cons.prems have "r = x # w \<or> r \<in> set ws" by simp
    then show ?thesis
    proof
      assume r: "r = x # w"
      have "w \<in> set (split c xs)" using ws by simp
      have "prefix w xs" using ws
      proof (induction xs arbitrary: w ws)
        case Nil
        then show ?case by simp
      next
        case (Cons y ys)
        then show ?case
          by (cases "split c ys") (auto split: if_splits simp: split_not_Nil)
      qed
      then show ?thesis using r by (simp add: sublist_Cons_right)
    next
      assume "r \<in> set ws"
      then have "r \<in> set (split c xs)" using ws by simp
      then show ?thesis using Cons.IH by (simp add: sublist_Cons_right)
    qed
  qed
qed

lemma required_scopes_loop_string:
  "required_scopes_loop (JStr g) rs =
     (if \<forall>r \<in> set rs. sublist r g then Inr ()
      else Inl (VatsimConnectException (Some ERR_INV_SCOPES)))"
  by (induction rs) (auto simp: seq_def str_indexOf_from_sublist)

lemma required_scopes_loop_array:
  "required_scopes_loop (JArr xs) rs =
     (if \<forall>r \<in> set rs. JStr r \<in> set xs then Inr ()
      else Inl (VatsimConnectException (Some ERR_INV_SCOPES)))"
  by (induction rs) (auto simp: seq_def arr_indexOf_from_member)

text \<open>
  C6, amended. Scope validation fails with the invalid-scopes error if and only if some
  required scope (the deployment's list, split at the spaces) does not occur in the
  granted scopes: as a substring when the provider sent them as one string, as an element
  when it sent an array. When the words of the granted string contain every required
  scope, the step passes.
\<close>

theorem validateSuppliedScopes_containment:
  "(m_suppliedScopes this = JStr g \<longrightarrow>
      validateSuppliedScopes this =
        (if \<forall>r \<in> set (split CHR '' '' (client_scopes (m_connectOptions this))). sublist r g
         then Inr () else Inl (VatsimConnectException (Some ERR_INV_SCOPES)))) \<and>
   (m_suppliedScopes this = JArr xs \<longrightarrow>
      validateSuppliedScopes this =
        (if \<forall>r \<in> set (split CHR '' '' (client_scopes (m_connectOptions this))). JStr r \<in> set xs
         then Inr () else Inl (VatsimConnectException (Some ERR_INV_SCOPES)))) \<and>
   (m_suppliedScopes this = JStr g \<and>
    set (split CHR '' '' (client_scopes (m_connectOptions this))) \<subseteq> set (split CHR '' '' g) \<longrightarrow>
      validateSuppliedScopes this = Inr ())"
proof (intro conjI impI)
  assume "m_suppliedScopes this = JStr g"
  then show "validateSuppliedScopes this =
        (if \<forall>r \<in> set (split CHR '' '' (client_scopes (m_connectOptions this))). sublist r g
         then Inr () else Inl (VatsimConnectException (Some ERR_INV_SCOPES)))"
    by (simp only: validateSuppliedScopes_def required_scopes_loop_string is_nullish.simps if_False)
next
  assume "m_suppliedScopes this = JArr xs"
  then show "validateSuppliedScopes this =
        (if \<forall>r \<in> set (split CHR '' '' (client_scopes (m_connectOptions this))). JStr r \<in> set xs
         then Inr () else Inl (VatsimConnectException (Some ERR_INV_SCOPES)))"
    by (simp only: validateSuppliedScopes_def required_scopes_loop_array is_nullish.simps if_False)
next
  assume a: "m_suppliedScopes this = JStr g \<and>
    set (split CHR '' '' (client_scopes (m_connectOptions this))) \<subseteq> set (split CHR '' '' g)"
  then have "\<forall>r \<in> set (split CHR '' '' (client_scopes (m_connectOptions this))). sublist r g"
    using split_word_sublist by blast
  with a show "validateSuppliedScopes this = Inr ()"
    by (simp add: validateSuppliedScopes_def required_scopes_loop_string)
qed

lemma sublist_eval:
  "sublist (x # xs) (y # ys) = (prefix (x # xs) (y # ys) \<or> sublist (x # xs) ys)"
  by (simp add: sublist_Cons_right)

text \<open>
  The theorem at the spec's scenario, where the granted scopes are the required ones,
  and at a granted array.
\<close>

theorem validateSuppliedScopes_containment_witness:
  "m_suppliedScopes (fresh_library\<lparr>m_suppliedScopes := JStr ''full_name vatsim_details email''\<rparr>) =
     JStr ''full_name vatsim_details email'' \<and>
   set (split CHR '' '' (client_scopes connect_options)) \<subseteq>
     set (split CHR '' '' ''full_name vatsim_details email'') \<and>
   validateSuppliedScopes
     (fresh_library\<lparr>m_suppliedScopes := JStr ''full_name vatsim_details email''\<rparr>) = Inr () \<and>
   m_suppliedScopes granted_array = JArr [JStr ''full_name'', JStr ''email''] \<and>
   validateSuppliedScopes granted_array = Inr ()"
  using validateSuppliedScopes_containment
          [where this = "fresh_library\<lparr>m_suppliedScopes := JStr ''full_name vatsim_details email''\<rparr>"
             and g = "''full_name vatsim_details email''" and xs = "[]"]
        validateSuppliedScopes_containment
          [where this = granted_array and g = "[]"
             and xs = "[JStr ''full_name'', JStr ''email'']"]
  by (simp add: fresh_library_def connect_options_def granted_array_def sublist_eval)

text \<open>
  C6 as stated fails for a granted string: the deployment requires \<open>email\<close>, the
  provider granted \<open>full_name emails\<close>, whose set of scopes does not contain
  \<open>email\<close>; \<^verbatim>\<open>indexOf\<close> finds the substring and the step passes.
\<close>

theorem validateSuppliedScopes_substring_counterexample:
  "m_suppliedScopes granted_emails = JStr ''full_name emails'' \<and>
   split CHR '' '' (client_scopes (m_connectOptions granted_emails)) = [''email''] \<and>
   split CHR '' '' ''full_name emails'' = [''full_name'', ''emails''] \<and>
   \<not> set [''email''] \<subseteq> set [''full_name'', ''emails''] \<and>
   validateSuppliedScopes granted_emails = Inr ()"
  by (simp add: granted_emails_def fresh_library_def connect_options_def
      validateSuppliedScopes_def seq_def)

subsection \<open>Reconciliation\<close>

lemma updateDatabase_try_eq:
  "updateDatabase_try env this valid t w =
     (case user_values this valid of
        Inl e \<Rightarrow> (Inl e, w)
      | Inr uv \<Rightarrow>
          if raises env UserUpsert then (Inl DatabaseError, w\<lparr>calls := calls w @ [UserUpsert]\<rparr>)
          else
            (case user_data_values this of
               Inl e \<Rightarrow> (Inl e, w\<lparr>calls := calls w @ [UserUpsert]\<rparr>)
             | Inr dv \<Rightarrow>
                 if raises env UserDataUpsert
                 then (Inl DatabaseError, w\<lparr>calls := calls w @ [UserUpsert, UserDataUpsert]\<rparr>)
                 else if raises env Commit
                 then (Inl DatabaseError,
                       w\<lparr>calls := calls w @ [UserUpsert, UserDataUpsert, Commit]\<rparr>)
                 else (Inr (),
                       w\<lparr>calls := calls w @ [UserUpsert, UserDataUpsert, Commit],
                         users := users w ++ (t_users t)(fst uv \<mapsto> snd uv),
                         user_data := user_data w ++ (t_user_data t)(fst dv \<mapsto> snd dv)\<rparr>)))"
  by (simp add: updateDatabase_try_def and_then_def expr_def User_upsert_def
      UserData_upsert_def commit_def db_call_def split: sum.splits)

lemma user_values_cid:
  "user_values this valid = Inr uv \<Longrightarrow> get_path (m_userData this) [''data'', ''cid''] = Inr (fst uv)"
  unfolding user_values_def seq_def
  by (cases "get_path (m_userData this) [''data'', ''cid'']") (auto split: sum.splits)

lemma user_values_tokens:
  "user_values this valid = Inr uv \<Longrightarrow>
     access_token (snd uv) = (if valid then m_accessToken this else JNull) \<and>
     refresh_token (snd uv) = (if valid then m_refreshToken this else JNull)"
  unfolding user_values_def seq_def by (auto split: sum.splits)


lemma updateDatabase_eq:
  assumes "\<not> is_nullish (m_userData this)"
    and "validateUserData env this = Inr False"
    and "tokenValid this = Inr valid"
    and "\<not> raises env Transaction"
  shows "updateDatabase env this w =
     (case updateDatabase_try env this valid \<lparr>t_users = Map.empty, t_user_data = Map.empty\<rparr>
             (w\<lparr>calls := calls w @ [Transaction]\<rparr>) of
        (Inr u, w') \<Rightarrow> (Inr (), w')
      | (Inl e, w') \<Rightarrow>
          (if raises env Rollback then Inl DatabaseError else Inr (),
           w'\<lparr>calls := calls w' @ [Rollback]\<rparr>))"
  using assms
  by (simp add: updateDatabase_def and_then_def expr_def sequelize_transaction_def db_call_def
      rollback_def split: prod.splits sum.splits)


lemma updateDatabase_invalid_propagates:
  assumes "\<not> is_nullish (m_userData this)" and "validateUserData env this = Inr True"
  shows "updateDatabase env this w = (Inl (VatsimConnectException None), w)"
  using assms by (simp add: updateDatabase_def and_then_def expr_def)

lemma updateDatabase_no_oauth_propagates:
  assumes "\<not> is_nullish (m_userData this)" and "validateUserData env this = Inr False"
    and "get_path (m_userData this) [''data'', ''oauth''] = Inr JUndefined"
  shows "updateDatabase env this w = (Inl TypeError, w)"
proof -
  from assms(3) have "tokenValid this = Inl TypeError"
    by (auto simp: tokenValid_def seq_def split: sum.splits)
  with assms(1,2) show ?thesis
    by (simp add: updateDatabase_def and_then_def expr_def)
qed




lemma tokenValid_iff:
  "tokenValid this = Inr True \<longleftrightarrow>
     (\<exists>s. get_path (m_userData this) [''data'', ''oauth'', ''token_valid''] = Inr (JStr s) \<and>
          map lower_char s = ''true'')"
proof (cases "get_path (m_userData this) [''data'', ''oauth'', ''token_valid'']")
  case (Inl e)
  then show ?thesis by (simp add: tokenValid_def seq_def)
next
  case (Inr v)
  then show ?thesis
    by (cases v) (simp_all add: tokenValid_def seq_def lower_string_true)
qed

lemma updateDatabase_committed:
  assumes "updateDatabase env this w = (r, w')"
    and "calls w' = calls w @ [Transaction, UserUpsert, UserDataUpsert, Commit]"
  shows "\<exists>valid uv dv. tokenValid this = Inr valid \<and> user_values this valid = Inr uv \<and>
           user_data_values this = Inr dv \<and>
           users w' = (users w)(fst uv \<mapsto> snd uv) \<and>
           user_data w' = (user_data w)(fst dv \<mapsto> snd dv)"
proof -
  have n: "\<not> is_nullish (m_userData this)"
    using assms by (auto simp: updateDatabase_def expr_def)
  obtain inv where v: "validateUserData env this = Inr inv"
    using assms n
    by (cases "validateUserData env this") (auto simp: updateDatabase_def expr_def and_then_def)
  have inv: "\<not> inv"
    using assms n v by (auto simp: updateDatabase_def expr_def and_then_def)
  obtain valid where tv: "tokenValid this = Inr valid"
    using assms n v inv
    by (cases "tokenValid this") (auto simp: updateDatabase_def expr_def and_then_def)
  have tr: "\<not> raises env Transaction"
    using assms n v inv tv
    by (auto simp: updateDatabase_def expr_def and_then_def sequelize_transaction_def
        db_call_def)
  from inv v have v': "validateUserData env this = Inr False" by simp
  note eq = updateDatabase_eq [OF n v' tv tr, of w]
  from assms show ?thesis
    unfolding eq updateDatabase_try_eq
    using tv
    by (auto split: sum.splits if_splits)
qed

text \<open>
  C9, amended. After a reconciliation whose transaction was committed, the row of the
  user holds the provider's access and refresh token if the field
  \<^verbatim>\<open>data.oauth.token_valid\<close> of the profile document is the string \<open>true\<close> in any
  letter case, and \<^verbatim>\<open>null\<close> in both columns otherwise.
\<close>

theorem updateDatabase_tokens:
  assumes "updateDatabase env this w = (r, w')"
    and "calls w' = calls w @ [Transaction, UserUpsert, UserDataUpsert, Commit]"
  shows "\<exists>cid row. get_path (m_userData this) [''data'', ''cid''] = Inr cid \<and>
           users w' cid = Some row \<and>
           access_token row =
             (if \<exists>s. get_path (m_userData this) [''data'', ''oauth'', ''token_valid''] =
                         Inr (JStr s) \<and> map lower_char s = ''true''
              then m_accessToken this else JNull) \<and>
           refresh_token row =
             (if \<exists>s. get_path (m_userData this) [''data'', ''oauth'', ''token_valid''] =
                         Inr (JStr s) \<and> map lower_char s = ''true''
              then m_refreshToken this else JNull)"
proof -
  from updateDatabase_committed [OF assms]
  obtain valid uv where c: "tokenValid this = Inr valid" "user_values this valid = Inr uv"
    "users w' = (users w)(fst uv \<mapsto> snd uv)" by blast
  have v: "valid \<longleftrightarrow>
     (\<exists>s. get_path (m_userData this) [''data'', ''oauth'', ''token_valid''] = Inr (JStr s) \<and>
          map lower_char s = ''true'')"
    using c(1) tokenValid_iff [of this] by auto
  have "get_path (m_userData this) [''data'', ''cid''] = Inr (fst uv)"
    using c(2) by (rule user_values_cid)
  moreover have "users w' (fst uv) = Some (snd uv)"
    using c(3) by simp
  moreover have "access_token (snd uv) = (if valid then m_accessToken this else JNull)"
    "refresh_token (snd uv) = (if valid then m_refreshToken this else JNull)"
    using user_values_tokens [OF c(2)] by simp_all
  ultimately show ?thesis
    unfolding v by blast
qed

lemma updateDatabase_scenario:
  "updateDatabase provider_env fetched_library two_sessions =
     (Inr (),
      two_sessions
        \<lparr>calls := [Transaction, UserUpsert, UserDataUpsert, Commit],
         users := [JNum 1234567 \<mapsto>
           \<lparr>first_name = JStr ''Ada'', last_name = JStr ''Lovelace'',
            email = JStr ''ada@example.org'', access_token = JStr ''tok1'',
            refresh_token = JStr ''ref1''\<rparr>],
         user_data := [JNum 1234567 \<mapsto>
           \<lparr>rating_atc = JNum 3, rating_pilot = JNum 0, country_code = JStr ''DE'',
            country_name = JStr ''Germany'', region_name = JStr ''Europe'',
            region_code = JStr ''EMEA'', division_name = JStr ''Europe (except UK)'',
            division_code = JStr ''EUD'', subdivision_name = JStr ''Germany'',
            subdivision_code = JStr ''GER''\<rparr>]\<rparr>)"
proof -
  have a: "\<not> is_nullish (m_userData fetched_library)"
    by (simp add: fetched_library_def profile_document_def)
  have b: "validateUserData provider_env fetched_library = Inr False"
    by (simp add: validateUserData_def userData_field_def seq_def fetched_library_def
        profile_document_def provider_env_def)
  have c: "tokenValid fetched_library = Inr True"
    by (simp add: tokenValid_def seq_def fetched_library_def profile_document_def
        lower_char_simps)
  have d: "\<not> raises provider_env c" for c
    by (simp add: provider_env_def)
  have uv: "user_values fetched_library True =
      Inr (JNum 1234567,
           \<lparr>first_name = JStr ''Ada'', last_name = JStr ''Lovelace'',
            email = JStr ''ada@example.org'', access_token = JStr ''tok1'',
            refresh_token = JStr ''ref1''\<rparr>)"
    by (simp add: user_values_def seq_def fetched_library_def profile_document_def)
  have dv: "user_data_values fetched_library =
      Inr (JNum 1234567,
           \<lparr>rating_atc = JNum 3, rating_pilot = JNum 0, country_code = JStr ''DE'',
            country_name = JStr ''Germany'', region_name = JStr ''Europe'',
            region_code = JStr ''EMEA'', division_name = JStr ''Europe (except UK)'',
            division_code = JStr ''EUD'', subdivision_name = JStr ''Germany'',
            subdivision_code = JStr ''GER''\<rparr>)"
    by (simp add: user_data_values_def seq_def fetched_library_def profile_document_def)
  show ?thesis
    by (simp add: updateDatabase_eq [OF a b c d] updateDatabase_try_eq uv dv d two_sessions_def)
qed

text \<open>The theorem at the scenario's profile, whose flag is \<open>true\<close>.\<close>

theorem updateDatabase_tokens_witness:
  "calls (snd (updateDatabase provider_env fetched_library two_sessions)) =
     calls two_sessions @ [Transaction, UserUpsert, UserDataUpsert, Commit] \<and>
   get_path (m_userData fetched_library) [''data'', ''oauth'', ''token_valid''] =
     Inr (JStr ''true'') \<and>
   map_option access_token
     (users (snd (updateDatabase provider_env fetched_library two_sessions)) (JNum 1234567)) =
     Some (JStr ''tok1'') \<and>
   map_option refresh_token
     (users (snd (updateDatabase provider_env fetched_library two_sessions)) (JNum 1234567)) =
     Some (JStr ''ref1'')"
proof -
  have c: "calls two_sessions = []" "users two_sessions = Map.empty"
    by (simp_all add: two_sessions_def)
  have f: "get_path (m_userData fetched_library) [''data'', ''oauth'', ''token_valid''] =
     Inr (JStr ''true'')"
    by (simp add: fetched_library_def profile_document_def)
  show ?thesis
    using updateDatabase_tokens
          [of provider_env fetched_library two_sessions
              "fst (updateDatabase provider_env fetched_library two_sessions)"
              "snd (updateDatabase provider_env fetched_library two_sessions)"]
    by (simp add: updateDatabase_scenario c f del: get_path.simps)
qed

text \<open>
  C9 as stated fails on the place of the flag: the profile marks the tokens valid under
  \<^verbatim>\<open>data.vatsim.token_valid\<close>, the code reads \<^verbatim>\<open>data.oauth.token_valid\<close>, which
  says \<open>false\<close>; the reconciliation is committed and both token columns are
  \<^verbatim>\<open>null\<close>.
\<close>

theorem updateDatabase_vatsim_flag_counterexample:
  "get_path (m_userData vatsim_flag_library) [''data'', ''vatsim'', ''token_valid''] =
     Inr (JStr ''true'') \<and>
   calls (snd (updateDatabase provider_env vatsim_flag_library two_sessions)) =
     [Transaction, UserUpsert, UserDataUpsert, Commit] \<and>
   users (snd (updateDatabase provider_env vatsim_flag_library two_sessions)) (JNum 1234567) =
     Some \<lparr>first_name = JStr ''Ada'', last_name = JStr ''Lovelace'',
           email = JStr ''ada@example.org'', access_token = JNull, refresh_token = JNull\<rparr>"
proof -
  have a: "\<not> is_nullish (m_userData vatsim_flag_library)"
    by (simp add: vatsim_flag_library_def fetched_library_def vatsim_flag_document_def)
  have b: "validateUserData provider_env vatsim_flag_library = Inr False"
    by (simp add: validateUserData_def userData_field_def seq_def vatsim_flag_library_def
        fetched_library_def vatsim_flag_document_def provider_env_def)
  have c: "tokenValid vatsim_flag_library = Inr False"
    by (simp add: tokenValid_def seq_def vatsim_flag_library_def fetched_library_def
        vatsim_flag_document_def lower_char_simps)
  have d: "\<not> raises provider_env c" for c
    by (simp add: provider_env_def)
  have uv: "user_values vatsim_flag_library False =
      Inr (JNum 1234567,
           \<lparr>first_name = JStr ''Ada'', last_name = JStr ''Lovelace'',
            email = JStr ''ada@example.org'', access_token = JNull,
            refresh_token = JNull\<rparr>)"
    by (simp add: user_values_def seq_def vatsim_flag_library_def fetched_library_def
        vatsim_flag_document_def)
  obtain dv where dv: "user_data_values vatsim_flag_library = Inr (JNum 1234567, dv)"
    by (simp add: user_data_values_def seq_def vatsim_flag_library_def fetched_library_def
        vatsim_flag_document_def)
  have e: "get_path (m_userData vatsim_flag_library) [''data'', ''vatsim'', ''token_valid''] =
     Inr (JStr ''true'')"
    by (simp add: vatsim_flag_library_def fetched_library_def vatsim_flag_document_def)
  show ?thesis
    by (simp add: e updateDatabase_eq [OF a b c d] updateDatabase_try_eq uv dv d
        two_sessions_def del: get_path.simps)
qed

subsection \<open>What each step of the login leaves behind\<close>

lemma same_tables_refl: "same_tables w w"
  by (simp add: same_tables_def)









lemma queryUserData_frame:
  assumes "queryUserData env this w = (r, w')"
  shows "\<exists>d this'. r = Inr (d, this') \<and>
           m_request this' = m_request this \<and> m_response this' = m_response this \<and>
           m_remember this' = m_remember this \<and>
           m_connectOptions this' = m_connectOptions this \<and>
           m_suppliedScopes this' = m_suppliedScopes this"
    "calls w' = calls w \<or> calls w' = calls w @ [ApiUser]"
    "same_tables w w'" "sent w' = sent w" "console w' = console w"
  using assms
  by (auto simp: queryUserData_def Let_def same_tables_def split: if_splits)








lemma updateDatabase_frame:
  assumes "updateDatabase env this w = (r, w')"
  shows "\<exists>tx. calls w' = calls w @ tx \<and>
           set tx \<subseteq> {Transaction, UserUpsert, UserDataUpsert, Commit, Rollback}"
    "user_sessions w' = user_sessions w" "user_settings w' = user_settings w"
    "sent w' = sent w" "console w' = console w"
  using assms
  by (auto simp: updateDatabase_def and_then_def expr_def sequelize_transaction_def
      db_call_def rollback_def updateDatabase_try_eq
      split: sum.splits if_splits prod.splits)



lemma User_findOne_frame:
  assumes "User_findOne env cid w = (r, w')"
  shows "w' = w\<lparr>calls := calls w @ [UserFindOne]\<rparr>"
    "(\<exists>u. r = Inr u) \<or> r = Inl DatabaseError"
  using assms
  by (auto simp: User_findOne_def and_then_def db_call_def split: if_splits)

subsection \<open>The session step and the runs of the login\<close>





lemma and_then_E:
  assumes "and_then m f w = (r, w')"
  obtains (raised) e where "m w = (Inl e, w')" "r = Inl e"
  | (returned) x w1 where "m w = (Inr x, w1)" "f x w1 = (r, w')"
  using assms by (auto simp: and_then_def split: prod.splits sum.splits)

lemma expr_E:
  assumes "expr v w = (r, w')"
  shows "v = r" "w' = w"
  using assms by (auto simp: expr_def)


subsection \<open>The scenario of the spec\<close>





subsection \<open>Sessions\<close>






subsection \<open>The order of the steps\<close>







subsection \<open>The refresh\<close>

text \<open>
  The refresh runs the same reconciliation and leaves the sessions alone; the theorems
  on \<^verbatim>\<open>_updateDatabase\<close> above hold for it as they do for the login.
\<close>

lemma updateUserData_sessions:
  assumes "updateUserData env this uid w = (r, w')"
  shows "user_sessions w' = user_sessions w"
  using assms unfolding updateUserData_def
proof (cases rule: and_then_E)
  case (raised e)
  from User_findOne_frame(1) [OF raised(1)] show ?thesis by simp
next
  case f: (returned found w1)
  from User_findOne_frame(1) [OF f(1)] have s1: "user_sessions w1 = user_sessions w" by simp
  show ?thesis
  proof (cases found)
    case None
    with f(2) s1 show ?thesis by auto
  next
    case (Some u)
    with f(2) have "and_then
           (queryUserData env
              (this\<lparr>m_accessToken :=
                      (if is_nullish (access_token (fst u)) then JUndefined
                       else access_token (fst u)),
                    m_refreshToken :=
                      (if is_nullish (refresh_token (fst u)) then JUndefined
                       else refresh_token (fst u))\<rparr>))
           (\<lambda>fetched.
         if is_nullish (fst fetched)
         then (\<lambda>w. (Inr (), w\<lparr>sent := sent w @ [SendStatus 500]\<rparr>))
         else
           and_then (updateDatabase env (snd fetched)) (\<lambda>_.
           and_then (expr (userData_field (snd fetched) ''cid'')) (\<lambda>cid.
           and_then (User_findOne env cid) (\<lambda>newUser.
           case newUser of
             None \<Rightarrow> (\<lambda>w. (Inr (), w\<lparr>sent := sent w @ [SendStatus 500]\<rparr>))
           | Some u \<Rightarrow> (\<lambda>w. (Inr (), w\<lparr>sent := sent w @ [Send (Some u)]\<rparr>)))))) w1 = (r, w')"
      by simp
    then show ?thesis
    proof (cases rule: and_then_E)
      case (raised e)
      from queryUserData_frame(3) [OF raised(1)] s1 show ?thesis
        by (simp add: same_tables_def)
    next
      case q: (returned fetched w2)
      from queryUserData_frame(3) [OF q(1)] s1 have s2: "user_sessions w2 = user_sessions w"
        by (simp add: same_tables_def)
      show ?thesis
      proof (cases "is_nullish (fst fetched)")
        case True
        with q(2) s2 show ?thesis by auto
      next
        case False
        with q(2) have "and_then (updateDatabase env (snd fetched)) (\<lambda>_.
           and_then (expr (userData_field (snd fetched) ''cid'')) (\<lambda>cid.
           and_then (User_findOne env cid) (\<lambda>newUser.
           case newUser of
             None \<Rightarrow> (\<lambda>w. (Inr (), w\<lparr>sent := sent w @ [SendStatus 500]\<rparr>))
           | Some u \<Rightarrow> (\<lambda>w. (Inr (), w\<lparr>sent := sent w @ [Send (Some u)]\<rparr>))))) w2 = (r, w')"
          by simp
        then show ?thesis
        proof (cases rule: and_then_E)
          case (raised e)
          from updateDatabase_frame(2) [OF raised(1)] s2 show ?thesis by simp
        next
          case d: (returned u3 w3)
          from updateDatabase_frame(2) [OF d(1)] s2 have s3: "user_sessions w3 = user_sessions w"
            by simp
          from d(2) show ?thesis
          proof (cases rule: and_then_E)
            case (raised e)
            from expr_E(2) [OF raised(1)] s3 show ?thesis by simp
          next
            case c: (returned cid w4)
            from expr_E(2) [OF c(1)] s3 have s4: "user_sessions w4 = user_sessions w" by simp
            from c(2) show ?thesis
            proof (cases rule: and_then_E)
              case (raised e)
              from User_findOne_frame(1) [OF raised(1)] s4 show ?thesis by simp
            next
              case n: (returned newUser w5)
              from User_findOne_frame(1) [OF n(1)] s4
              have "user_sessions w5 = user_sessions w" by simp
              with n(2) show ?thesis
                by (cases newUser) auto
            qed
          qed
        qed
      qed
    qed
  qed
qed

end
